theory Spec2Isabelle
  imports Main
begin

section \<open>Data model\<close>

text \<open>
  The backup service of \<^verbatim>\<open>main.go\<close>: it copies one file to a staging directory,
  compresses the copy with gzip, uploads the result to a bucket under the prefix
  \<^verbatim>\<open>backups/\<close>, deletes the objects under that prefix that are older than the
  retention window and removes the two local files.

  File contents, and the bodies of remote objects, are byte strings; a path and an
  object key are strings.
\<close>

type_synonym bytes = string

text \<open>
  A \<^verbatim>\<open>time.Time\<close> as the program uses it: the seconds since January 1 of year 1,
  00:00:00 UTC (the value that \<^verbatim>\<open>Before\<close> compares, a signed 64-bit integer in Go)
  and the nanoseconds within that second.
\<close>

record gotime =
  wall_sec :: int
  wall_nsec :: int

record Config =
  R2AccessKeyID :: string
  R2SecretAccessKey :: string
  R2AccountID :: string
  R2Bucket :: string
  DBPath :: string
  HostDBPath :: string
  BackupDir :: string
  RetentionDays :: int

record s3object =
  LastModified :: gotime
  Body :: bytes

text \<open>The errors the functions of \<^verbatim>\<open>main.go\<close> return, one per \<^verbatim>\<open>fmt.Errorf\<close>.\<close>

datatype error =
    FailedToCreateBackupDirectory
  | FailedToOpenDatabase
  | FailedToCreateBackupFile
  | FailedToCopyDatabase
  | FailedToOpenSourceFile
  | FailedToCreateCompressedFile
  | FailedToCompressFile
  | FailedToOpenFileForUpload
  | FailedToUploadToR2
  | FailedToListR2Objects
  | FailedToDeleteObject

text \<open>The lines the program writes to its log.\<close>

datatype logline =
    LogStartingScheduled string
  | LogBackupFailed error
  | LogCompressionFailed error
  | LogUploadFailed error
  | LogCleanupWarning error
  | LogFailedToDeleteOldBackup string error
  | LogDeletedOldBackup string
  | LogBackupCompleted
  | LogScheduledBackupCompleted

text \<open>
  What can be observed of a run from outside: the entry into each of the four stage
  functions, the requests sent to the object store and the removals of local files.
\<close>

datatype stage = Snapshot | Compress | Upload | Prune

datatype event =
    Enter stage
  | PutObject string
  | ListObjectsV2 string
  | DeleteObject string
  | Remove string

text \<open>
  The state the program acts on: the regular files of the local file system, the
  objects of the configured bucket (key, last-modified time and body, in the order in
  which a listing returns them), the log, the trace of observable events and the number
  of readings of the clock taken so far.
\<close>

record world =
  files :: "string \<Rightarrow> bytes option"
  bucket :: "(string \<times> s3object) list"
  logs :: "logline list"
  trace :: "event list"
  ticks :: nat

text \<open>
  What the operating system, the gzip library and the object store do during a run.
  The clock gives the successive results of \<^verbatim>\<open>time.Now()\<close>; the local time zone is
  one fixed offset from UTC. Every operation that can fail in the program can be made to
  fail here: a failing copy leaves the first \<open>n\<close> bytes in the destination, and a
  failing \<^verbatim>\<open>Close\<close> of the gzip writer leaves the first \<open>n\<close> bytes of the compressed
  stream. \<open>gzip_stream\<close> is the complete stream (header, deflate blocks and trailer)
  that the gzip writer produces for a payload. \<open>put_stamp\<close> is the last-modified time
  the store gives an object uploaded after that many clock readings.
\<close>

record env =
  clock :: "nat \<Rightarrow> gotime"
  zone_offset :: int
  mkdirall_fails :: "string \<Rightarrow> bool"
  open_fails :: "string \<Rightarrow> bool"
  create_fails :: "string \<Rightarrow> bool"
  copy_fails :: "string \<Rightarrow> nat option"
  gzip_stream :: "bytes \<Rightarrow> bytes"
  gzip_close_fails :: "string \<Rightarrow> nat option"
  put_fails :: "string \<Rightarrow> bool"
  put_stamp :: "nat \<Rightarrow> gotime"
  list_fails :: bool
  delete_fails :: "string \<Rightarrow> bool"
  remove_fails :: "string \<Rightarrow> bool"

section \<open>Library functions the program calls\<close>

subsection \<open>Strings and paths\<close>

text \<open>
  \<^verbatim>\<open>strings.HasPrefix\<close>, \<^verbatim>\<open>strings.HasSuffix\<close> and \<^verbatim>\<open>strings.TrimSuffix\<close>.
\<close>

definition HasPrefix :: "string \<Rightarrow> string \<Rightarrow> bool" where
  "HasPrefix s p = (take (length p) s = p)"

definition HasSuffix :: "string \<Rightarrow> string \<Rightarrow> bool" where
  "HasSuffix s x = (length x \<le> length s \<and> drop (length s - length x) s = x)"

definition TrimSuffix :: "string \<Rightarrow> string \<Rightarrow> string" where
  "TrimSuffix s x = (if HasSuffix s x then take (length s - length x) s else s)"

text \<open>
  Package \<^verbatim>\<open>path/filepath\<close> on a system whose separator is the slash (the service
  runs in a Linux container). \<open>last_element\<close> is what follows the last slash.
\<close>

definition is_sep :: "char \<Rightarrow> bool" where
  "is_sep c = (c = CHR ''/'')"

definition last_element :: "string \<Rightarrow> string" where
  "last_element p = rev (takeWhile (\<lambda>c. \<not> is_sep c) (rev p))"

definition strip_trailing_slashes :: "string \<Rightarrow> string" where
  "strip_trailing_slashes p = rev (dropWhile is_sep (rev p))"

text \<open>
  \<^verbatim>\<open>filepath.Base\<close>: the last element of the path, trailing slashes removed first;
  \<^verbatim>\<open>.\<close> for the empty path and a single slash for a path of slashes only.
\<close>

definition Base :: "string \<Rightarrow> string" where
  "Base p =
     (if p = [] then ''.''
      else let r = last_element (strip_trailing_slashes p)
           in if r = [] then ''/'' else r)"

text \<open>
  \<^verbatim>\<open>filepath.Ext\<close>: the suffix beginning at the final dot of the last element, empty
  when that element has no dot.
\<close>

definition Ext :: "string \<Rightarrow> string" where
  "Ext p =
     (let e = last_element p
      in if CHR ''.'' \<in> set e
         then CHR ''.'' # rev (takeWhile (\<lambda>c. c \<noteq> CHR ''.'') (rev e))
         else [])"

fun split_path :: "string \<Rightarrow> string list" where
  "split_path [] = [[]]"
| "split_path (c # cs) =
     (if is_sep c then [] # split_path cs
      else (case split_path cs of
              [] \<Rightarrow> [[c]]
            | x # xs \<Rightarrow> (c # x) # xs))"

fun join_sep :: "string list \<Rightarrow> string" where
  "join_sep [] = []"
| "join_sep [x] = x"
| "join_sep (x # y # ys) = x @ ''/'' @ join_sep (y # ys)"

text \<open>
  \<^verbatim>\<open>filepath.Clean\<close> reads the path element by element and writes the elements it
  keeps: an empty element and \<^verbatim>\<open>.\<close> are dropped; \<^verbatim>\<open>..\<close> removes the element
  written last when there is one that is not itself \<^verbatim>\<open>..\<close>, is dropped at the root
  and is kept otherwise; the empty result is \<^verbatim>\<open>.\<close>.
\<close>

definition clean_step :: "bool \<Rightarrow> string list \<Rightarrow> string \<Rightarrow> string list" where
  "clean_step rooted out el =
     (if el = [] \<or> el = ''.'' then out
      else if el = ''..'' then
        (if out \<noteq> [] \<and> last out \<noteq> ''..'' then butlast out
         else if \<not> rooted then out @ [''..'']
         else out)
      else out @ [el])"

definition Clean :: "string \<Rightarrow> string" where
  "Clean p =
     (if p = [] then ''.''
      else let rooted = is_sep (hd p);
               out = foldl (clean_step rooted) [] (split_path p);
               s = (if rooted then ''/'' else []) @ join_sep out
           in if s = [] then ''.'' else s)"

text \<open>
  \<^verbatim>\<open>filepath.Join\<close>: the elements from the first non-empty one on, joined by
  slashes and cleaned; \<^verbatim>\<open>filepath.Dir\<close>: the path up to its last slash, cleaned.
\<close>

definition Join :: "string list \<Rightarrow> string" where
  "Join elem =
     (case dropWhile (\<lambda>el. el = []) elem of
        [] \<Rightarrow> []
      | es \<Rightarrow> Clean (join_sep es))"

definition Dir :: "string \<Rightarrow> string" where
  "Dir p = Clean (rev (dropWhile (\<lambda>c. \<not> is_sep c) (rev p)))"

subsection \<open>Time\<close>

text \<open>
  Go keeps the seconds of a time in a signed 64-bit integer and computes with them
  modulo \<open>2 ^ 64\<close>; \<open>wrap64\<close> is the signed value of an integer so reduced.
\<close>

definition wrap64 :: "int \<Rightarrow> int" where
  "wrap64 x = (x + 2 ^ 63) mod 2 ^ 64 - 2 ^ 63"

definition Before :: "gotime \<Rightarrow> gotime \<Rightarrow> bool" where
  "Before t u =
     (wall_sec t < wall_sec u \<or> (wall_sec t = wall_sec u \<and> wall_nsec t < wall_nsec u))"

text \<open>
  \<^verbatim>\<open>t.AddDate(0, 0, days)\<close>: the same time of day \<open>days\<close> calendar days later. With
  one fixed zone offset a calendar day is 86400 seconds.
\<close>

definition AddDate_days :: "gotime \<Rightarrow> int \<Rightarrow> gotime" where
  "AddDate_days t days = t\<lparr>wall_sec := wrap64 (wall_sec t + days * 86400)\<rparr>"

text \<open>
  The civil date (proleptic Gregorian calendar) of a number of days counted from
  January 1 of year 1: year, month and day of the month.
\<close>

definition civil_from_days :: "int \<Rightarrow> int \<times> int \<times> int" where
  "civil_from_days days =
     (let z = days + 306;
          era = z div 146097;
          doe = z - era * 146097;
          yoe = (doe - doe div 1460 + doe div 36524 - doe div 146096) div 365;
          y = yoe + era * 400;
          doy = doe - (365 * yoe + yoe div 4 - yoe div 100);
          mp = (5 * doy + 2) div 153;
          d = doy - (153 * mp + 2) div 5 + 1;
          m = (if mp < 10 then mp + 3 else mp - 9)
      in (if m \<le> 2 then y + 1 else y, m, d))"

fun digit_char :: "nat \<Rightarrow> char" where
  "digit_char n = char_of (48 + n)"

fun decimal :: "nat \<Rightarrow> string" where
  "decimal n = (if n < 10 then [digit_char n] else decimal (n div 10) @ [digit_char (n mod 10)])"

text \<open>
  \<^verbatim>\<open>appendInt\<close> of package \<^verbatim>\<open>time\<close>: a minus sign for a negative number, then the
  decimal digits of its magnitude, padded with zeros on the left to the width.
\<close>

definition appendInt :: "int \<Rightarrow> nat \<Rightarrow> string" where
  "appendInt x width =
     (let ds = decimal (nat \<bar>x\<bar>)
      in (if x < 0 then ''-'' else []) @ replicate (width - length ds) CHR ''0'' @ ds)"

text \<open>
  \<^verbatim>\<open>t.Format("20060102_150405")\<close> and \<^verbatim>\<open>t.Format("2006-01-02 15:04:05")\<close> in the
  local zone, whose offset from UTC is \<open>off\<close> seconds.
\<close>

definition Format_stamp :: "int \<Rightarrow> gotime \<Rightarrow> string" where
  "Format_stamp off t =
     (let a = wall_sec t + off;
          (y, m, d) = civil_from_days (a div 86400);
          s = a mod 86400
      in appendInt y 4 @ appendInt m 2 @ appendInt d 2 @ ''_'' @
         appendInt (s div 3600) 2 @ appendInt (s mod 3600 div 60) 2 @ appendInt (s mod 60) 2)"

definition Format_datetime :: "int \<Rightarrow> gotime \<Rightarrow> string" where
  "Format_datetime off t =
     (let a = wall_sec t + off;
          (y, m, d) = civil_from_days (a div 86400);
          s = a mod 86400
      in appendInt y 4 @ ''-'' @ appendInt m 2 @ ''-'' @ appendInt d 2 @ '' '' @
         appendInt (s div 3600) 2 @ '':'' @ appendInt (s mod 3600 div 60) 2 @ '':'' @
         appendInt (s mod 60) 2)"

section \<open>Operations on the world\<close>

definition log_line :: "logline \<Rightarrow> world \<Rightarrow> world" where
  "log_line l w = w\<lparr>logs := logs w @ [l]\<rparr>"

definition emit :: "event \<Rightarrow> world \<Rightarrow> world" where
  "emit ev w = w\<lparr>trace := trace w @ [ev]\<rparr>"

text \<open>\<^verbatim>\<open>time.Now()\<close>: the next reading of the clock.\<close>

definition time_Now :: "env \<Rightarrow> world \<Rightarrow> gotime \<times> world" where
  "time_Now e w = (clock e (ticks w), w\<lparr>ticks := Suc (ticks w)\<rparr>)"

text \<open>
  \<^verbatim>\<open>os.Open\<close> succeeds on a file that exists, unless the system refuses it;
  \<^verbatim>\<open>os.Create\<close> creates the file or truncates it; a read sees the content the file has
  at that moment.
\<close>

definition can_open :: "env \<Rightarrow> world \<Rightarrow> string \<Rightarrow> bool" where
  "can_open e w p = (\<not> open_fails e p \<and> files w p \<noteq> None)"

definition write_file :: "string \<Rightarrow> bytes \<Rightarrow> world \<Rightarrow> world" where
  "write_file p content w = w\<lparr>files := (files w)(p \<mapsto> content)\<rparr>"

definition read_file :: "world \<Rightarrow> string \<Rightarrow> bytes" where
  "read_file w p = (case files w p of None \<Rightarrow> [] | Some content \<Rightarrow> content)"

text \<open>
  \<^verbatim>\<open>os.Remove\<close>, whose result the program drops: the file is gone afterwards unless
  the system refuses the removal.
\<close>

definition os_Remove :: "env \<Rightarrow> string \<Rightarrow> world \<Rightarrow> world" where
  "os_Remove e p w =
     (let w1 = emit (Remove p) w
      in if remove_fails e p then w1 else w1\<lparr>files := (files w1)(p := None)\<rparr>)"

text \<open>
  The three requests to the object store. A put replaces the object of that key; a
  listing returns the objects whose key starts with the prefix (one response holds the
  whole listing); a delete removes the object of that key.
\<close>

definition s3_PutObject :: "env \<Rightarrow> string \<Rightarrow> bytes \<Rightarrow> world \<Rightarrow> error option \<times> world" where
  "s3_PutObject e key body w =
     (let w1 = emit (PutObject key) w
      in if put_fails e key then (Some FailedToUploadToR2, w1)
         else (None, w1\<lparr>bucket := filter (\<lambda>(k, ob). k \<noteq> key) (bucket w1) @
                 [(key, \<lparr>LastModified = put_stamp e (ticks w1), Body = body\<rparr>)]\<rparr>))"

definition s3_ListObjectsV2 ::
  "env \<Rightarrow> string \<Rightarrow> world \<Rightarrow> (string \<times> s3object) list option \<times> world" where
  "s3_ListObjectsV2 e pfx w =
     (let w1 = emit (ListObjectsV2 pfx) w
      in if list_fails e then (None, w1)
         else (Some (filter (\<lambda>(k, ob). HasPrefix k pfx) (bucket w1)), w1))"

definition s3_DeleteObject :: "env \<Rightarrow> string \<Rightarrow> world \<Rightarrow> error option \<times> world" where
  "s3_DeleteObject e key w =
     (let w1 = emit (DeleteObject key) w
      in if delete_fails e key then (Some FailedToDeleteObject, w1)
         else (None, w1\<lparr>bucket := filter (\<lambda>(k, ob). k \<noteq> key) (bucket w1)\<rparr>))"

section \<open>The program\<close>

text \<open>
  \<^verbatim>\<open>createBackup\<close> (lines 97 to 121): create the directory of the backup path, open
  the database file, create the backup file and copy. The deferred closes of the two
  files change nothing in the world.
\<close>

definition createBackup :: "env \<Rightarrow> string \<Rightarrow> string \<Rightarrow> world \<Rightarrow> error option \<times> world" where
  "createBackup e dbPath backupPath w0 =
     (let w = emit (Enter Snapshot) w0
      in if mkdirall_fails e (Dir backupPath) then (Some FailedToCreateBackupDirectory, w)
         else if \<not> can_open e w dbPath then (Some FailedToOpenDatabase, w)
         else if create_fails e backupPath then (Some FailedToCreateBackupFile, w)
         else let w1 = write_file backupPath [] w;
                  content = read_file w1 dbPath
              in (case copy_fails e backupPath of
                    Some n \<Rightarrow> (Some FailedToCopyDatabase, write_file backupPath (take n content) w1)
                  | None \<Rightarrow> (None, write_file backupPath content w1)))"

text \<open>
  \<^verbatim>\<open>compressFile\<close> (lines 123 to 144): open the source, create the destination and
  copy the source through a gzip writer. The writer is closed by a deferred call, which
  runs when the function returns and whose error nothing reads: when the copy has
  succeeded the function returns \<^verbatim>\<open>nil\<close> whether or not that close could write the
  rest of the stream and its trailer.
\<close>

definition compressFile :: "env \<Rightarrow> string \<Rightarrow> string \<Rightarrow> world \<Rightarrow> error option \<times> world" where
  "compressFile e srcPath dstPath w0 =
     (let w = emit (Enter Compress) w0
      in if \<not> can_open e w srcPath then (Some FailedToOpenSourceFile, w)
         else if create_fails e dstPath then (Some FailedToCreateCompressedFile, w)
         else let w1 = write_file dstPath [] w;
                  stream = gzip_stream e (read_file w1 srcPath)
              in (case copy_fails e dstPath of
                    Some n \<Rightarrow> (Some FailedToCompressFile, write_file dstPath (take n stream) w1)
                  | None \<Rightarrow>
                      (case gzip_close_fails e dstPath of
                         Some n \<Rightarrow> (None, write_file dstPath (take n stream) w1)
                       | None \<Rightarrow> (None, write_file dstPath stream w1))))"

text \<open>
  \<^verbatim>\<open>uploadToR2\<close> (lines 146 to 165): the key is \<^verbatim>\<open>backups/\<close> followed by the base
  name of the file.
\<close>

definition uploadToR2 :: "env \<Rightarrow> Config \<Rightarrow> string \<Rightarrow> world \<Rightarrow> error option \<times> world" where
  "uploadToR2 e cfg filePath w0 =
     (let w = emit (Enter Upload) w0
      in if \<not> can_open e w filePath then (Some FailedToOpenFileForUpload, w)
         else let key = ''backups/'' @ Base filePath
              in s3_PutObject e key (read_file w filePath) w)"

text \<open>
  \<^verbatim>\<open>cleanupOldBackups\<close> (lines 167 to 195). The loop over the listing deletes every
  object last modified before the cutoff; a delete that fails is logged and the loop
  goes on.
\<close>

fun prune_loop :: "env \<Rightarrow> gotime \<Rightarrow> (string \<times> s3object) list \<Rightarrow> world \<Rightarrow> world" where
  "prune_loop e cutoff [] w = w"
| "prune_loop e cutoff ((key, ob) # rest) w =
     (if Before (LastModified ob) cutoff then
        (case s3_DeleteObject e key w of
           (Some err, w1) \<Rightarrow> prune_loop e cutoff rest (log_line (LogFailedToDeleteOldBackup key err) w1)
         | (None, w1) \<Rightarrow> prune_loop e cutoff rest (log_line (LogDeletedOldBackup key) w1))
      else prune_loop e cutoff rest w)"

definition cleanupOldBackups :: "env \<Rightarrow> Config \<Rightarrow> world \<Rightarrow> error option \<times> world" where
  "cleanupOldBackups e cfg w0 =
     (let w = emit (Enter Prune) w0;
          (now, w1) = time_Now e w;
          cutoff = AddDate_days now (wrap64 (- RetentionDays cfg))
      in (case s3_ListObjectsV2 e ''backups/'' w1 of
            (None, w2) \<Rightarrow> (Some FailedToListR2Objects, w2)
          | (Some contents, w2) \<Rightarrow> (None, prune_loop e cutoff contents w2)))"

text \<open>
  The names of one run (lines 249 to 256 and 204 to 211): the database name is the base
  name of the host path without its extension, the staged file is
  \<^verbatim>\<open><BackupDir>/<dbName>_backup_<timestamp>.sql\<close> and the compressed file is the
  staged file followed by \<^verbatim>\<open>.gz\<close>.
\<close>

definition dbName_of :: "Config \<Rightarrow> string" where
  "dbName_of cfg = (let dbName = Base (HostDBPath cfg) in TrimSuffix dbName (Ext dbName))"

definition backupFile_of :: "Config \<Rightarrow> string \<Rightarrow> string" where
  "backupFile_of cfg timestamp =
     Join [BackupDir cfg, dbName_of cfg @ ''_backup_'' @ timestamp @ ''.sql'']"

text \<open>\<^verbatim>\<open>runBackup\<close> (lines 248 to 282).\<close>

definition runBackup :: "env \<Rightarrow> Config \<Rightarrow> world \<Rightarrow> world" where
  "runBackup e cfg w0 =
     (let (now, w) = time_Now e w0;
          timestamp = Format_stamp (zone_offset e) now;
          backupFile = backupFile_of cfg timestamp;
          compressedFile = backupFile @ ''.gz''
      in (case createBackup e (DBPath cfg) backupFile w of
            (Some err, w1) \<Rightarrow> log_line (LogBackupFailed err) w1
          | (None, w1) \<Rightarrow>
         (case compressFile e backupFile compressedFile w1 of
            (Some err, w2) \<Rightarrow> log_line (LogCompressionFailed err) w2
          | (None, w2) \<Rightarrow>
         (case uploadToR2 e cfg compressedFile w2 of
            (Some err, w3) \<Rightarrow> log_line (LogUploadFailed err) w3
          | (None, w3) \<Rightarrow>
         (let w5 = (case cleanupOldBackups e cfg w3 of
                      (Some err, w4) \<Rightarrow> log_line (LogCleanupWarning err) w4
                    | (None, w4) \<Rightarrow> w4);
              w6 = os_Remove e backupFile w5;
              w7 = os_Remove e compressedFile w6
          in log_line LogBackupCompleted w7)))))"

text \<open>
  The function that \<^verbatim>\<open>scheduleBackup\<close> registers for 02:00 every day (lines 201 to
  237). Its first log line reads the clock once more than \<^verbatim>\<open>runBackup\<close> does.
\<close>

definition scheduledBackup :: "env \<Rightarrow> Config \<Rightarrow> world \<Rightarrow> world" where
  "scheduledBackup e cfg w00 =
     (let (started, w0') = time_Now e w00;
          w0 = log_line (LogStartingScheduled (Format_datetime (zone_offset e) started)) w0';
          (now, w) = time_Now e w0;
          timestamp = Format_stamp (zone_offset e) now;
          backupFile = backupFile_of cfg timestamp;
          compressedFile = backupFile @ ''.gz''
      in (case createBackup e (DBPath cfg) backupFile w of
            (Some err, w1) \<Rightarrow> log_line (LogBackupFailed err) w1
          | (None, w1) \<Rightarrow>
         (case compressFile e backupFile compressedFile w1 of
            (Some err, w2) \<Rightarrow> log_line (LogCompressionFailed err) w2
          | (None, w2) \<Rightarrow>
         (case uploadToR2 e cfg compressedFile w2 of
            (Some err, w3) \<Rightarrow> log_line (LogUploadFailed err) w3
          | (None, w3) \<Rightarrow>
         (let w5 = (case cleanupOldBackups e cfg w3 of
                      (Some err, w4) \<Rightarrow> log_line (LogCleanupWarning err) w4
                    | (None, w4) \<Rightarrow> w4);
              w6 = os_Remove e backupFile w5;
              w7 = os_Remove e compressedFile w6
          in log_line LogScheduledBackupCompleted w7)))))"

section \<open>Observations of a run\<close>

text \<open>The stage functions entered, in order, as the trace records them.\<close>

text \<open>The stage functions entered, in order, as the trace records them.\<close>

fun stage_of :: "event \<Rightarrow> stage list" where
  "stage_of (Enter s) = [s]"
| "stage_of ev = []"

definition stages_entered :: "event list \<Rightarrow> stage list" where
  "stages_entered evs = concat (map stage_of evs)"

text \<open>
  The cutoff that \<^verbatim>\<open>cleanupOldBackups\<close> computes when it is entered in a world, the
  listing it receives, the keys of the delete requests its loop sends for a listing,
  and those among them whose request succeeds.
\<close>

definition cutoff_of :: "env \<Rightarrow> Config \<Rightarrow> world \<Rightarrow> gotime" where
  "cutoff_of e cfg w = AddDate_days (clock e (ticks w)) (wrap64 (- RetentionDays cfg))"

definition listing_of :: "world \<Rightarrow> (string \<times> s3object) list" where
  "listing_of w = filter (\<lambda>(k, ob). HasPrefix k ''backups/'') (bucket w)"

definition stale_keys :: "gotime \<Rightarrow> (string \<times> s3object) list \<Rightarrow> string list" where
  "stale_keys cutoff contents = map fst (filter (\<lambda>(k, ob). Before (LastModified ob) cutoff) contents)"

definition deleted_keys :: "env \<Rightarrow> gotime \<Rightarrow> (string \<times> s3object) list \<Rightarrow> string list" where
  "deleted_keys e cutoff contents = filter (\<lambda>k. \<not> delete_fails e k) (stale_keys cutoff contents)"

text \<open>
  A request to the store stays under a prefix when the key it puts or deletes, or the
  prefix it lists, is under it. \<open>outside_prefix\<close> are the objects of the bucket
  outside \<^verbatim>\<open>backups/\<close>, and \<open>new_events\<close> the events a step added to the trace.
\<close>

fun under_prefix :: "string \<Rightarrow> event \<Rightarrow> bool" where
  "under_prefix pfx (PutObject k) = HasPrefix k pfx"
| "under_prefix pfx (ListObjectsV2 p) = (p = pfx)"
| "under_prefix pfx (DeleteObject k) = HasPrefix k pfx"
| "under_prefix pfx (Enter s) = True"
| "under_prefix pfx (Remove p) = True"

definition outside_prefix :: "world \<Rightarrow> (string \<times> s3object) list" where
  "outside_prefix w = filter (\<lambda>(k, ob). \<not> HasPrefix k ''backups/'') (bucket w)"

definition new_events :: "world \<Rightarrow> world \<Rightarrow> event list" where
  "new_events w w' = drop (length (trace w)) (trace w')"

section \<open>An example run\<close>

text \<open>
  The scenario of the specification: the host path \<^verbatim>\<open>./data/app.db\<close>, a run at
  2024-03-01 02:00:00 UTC with a retention of 30 days, and a bucket that holds a backup
  45 days old, one 10 days old and an object outside the prefix. The clock advances one
  second per reading. The stand-in for the gzip stream brackets the payload.
\<close>

definition example_gzip :: "bytes \<Rightarrow> bytes" where
  "example_gzip payload = ''<gz>'' @ payload @ ''</gz>''"

definition example_cfg :: Config where
  "example_cfg =
     \<lparr>R2AccessKeyID = ''key'', R2SecretAccessKey = ''secret'', R2AccountID = ''account'',
      R2Bucket = ''bucket'', DBPath = ''/data/app.db'', HostDBPath = ''./data/app.db'',
      BackupDir = ''/backups'', RetentionDays = 30\<rparr>"

definition example_time :: "int \<Rightarrow> gotime" where
  "example_time s = \<lparr>wall_sec = 63844855200 + s, wall_nsec = 0\<rparr>"

definition example_env :: env where
  "example_env =
     \<lparr>clock = (\<lambda>n. example_time (int n)), zone_offset = 0,
      mkdirall_fails = (\<lambda>p. False), open_fails = (\<lambda>p. False), create_fails = (\<lambda>p. False),
      copy_fails = (\<lambda>p. None), gzip_stream = example_gzip, gzip_close_fails = (\<lambda>p. None),
      put_fails = (\<lambda>k. False), put_stamp = (\<lambda>n. example_time (int n)), list_fails = False,
      delete_fails = (\<lambda>k. False), remove_fails = (\<lambda>p. False)\<rparr>"

definition example_world :: world where
  "example_world =
     \<lparr>files = [''/data/app.db'' \<mapsto> ''SQLite format 3''],
      bucket =
        [(''backups/app_backup_20240115_020000.sql.gz'',
            \<lparr>LastModified = example_time (- 45 * 86400), Body = ''old''\<rparr>),
         (''backups/app_backup_20240220_020000.sql.gz'',
            \<lparr>LastModified = example_time (- 10 * 86400), Body = ''recent''\<rparr>),
         (''notes/readme.txt'',
            \<lparr>LastModified = example_time (- 400 * 86400), Body = ''keep''\<rparr>)],
      logs = [], trace = [], ticks = 0\<rparr>"

section \<open>Properties\<close>

subsection \<open>The trace of a run\<close>

lemma stages_entered_append [simp]:
  "stages_entered (xs @ ys) = stages_entered xs @ stages_entered ys"
  by (simp add: stages_entered_def)

lemma stages_entered_simps [simp]:
  "stages_entered [] = []"
  "stages_entered (Enter s # evs) = s # stages_entered evs"
  "stages_entered (PutObject k # evs) = stages_entered evs"
  "stages_entered (ListObjectsV2 k # evs) = stages_entered evs"
  "stages_entered (DeleteObject k # evs) = stages_entered evs"
  "stages_entered (Remove k # evs) = stages_entered evs"
  by (simp_all add: stages_entered_def)

lemma trace_log_line [simp]: "trace (log_line l w) = trace w"
  by (simp add: log_line_def)

lemma trace_emit [simp]: "trace (emit ev w) = trace w @ [ev]"
  by (simp add: emit_def)

lemma trace_write_file [simp]: "trace (write_file p c w) = trace w"
  by (simp add: write_file_def)

lemma trace_time_Now [simp]: "trace (snd (time_Now e w)) = trace w"
  by (simp add: time_Now_def)

lemma trace_createBackup:
  "trace (snd (createBackup e a b w)) = trace w @ [Enter Snapshot]"
  by (simp add: createBackup_def Let_def split: option.splits)

lemma trace_compressFile:
  "trace (snd (compressFile e a b w)) = trace w @ [Enter Compress]"
  by (simp add: compressFile_def Let_def split: option.splits)

lemma trace_os_Remove [simp]: "trace (os_Remove e p w) = trace w @ [Remove p]"
  by (simp add: os_Remove_def Let_def)

lemma trace_s3_PutObject [simp]: "trace (snd (s3_PutObject e k b w)) = trace w @ [PutObject k]"
  by (simp add: s3_PutObject_def Let_def)

lemma trace_s3_DeleteObject [simp]: "trace (snd (s3_DeleteObject e k w)) = trace w @ [DeleteObject k]"
  by (simp add: s3_DeleteObject_def Let_def)

lemma trace_s3_ListObjectsV2 [simp]: "trace (snd (s3_ListObjectsV2 e k w)) = trace w @ [ListObjectsV2 k]"
  by (simp add: s3_ListObjectsV2_def Let_def)

lemma stages_uploadToR2:
  "stages_entered (trace (snd (uploadToR2 e cfg f w))) = stages_entered (trace w) @ [Upload]"
  by (simp add: uploadToR2_def Let_def)

lemma trace_prune_loop:
  "trace (prune_loop e cutoff contents w) = trace w @ map DeleteObject (stale_keys cutoff contents)"
proof (induction contents arbitrary: w)
  case Nil
  then show ?case by (simp add: stale_keys_def)
next
  case (Cons a contents)
  obtain k ob where a: "a = (k, ob)" by (cases a)
  show ?case
  proof (cases "Before (LastModified ob) cutoff")
    case True
    obtain r w1 where d: "s3_DeleteObject e k w = (r, w1)" by (cases "s3_DeleteObject e k w")
    have t: "trace w1 = trace w @ [DeleteObject k]"
      using trace_s3_DeleteObject [of e k w] d by simp
    show ?thesis
      using True a d t Cons.IH by (cases r) (simp_all add: stale_keys_def)
  next
    case False
    then show ?thesis using a Cons.IH by (simp add: stale_keys_def)
  qed
qed

lemma stages_map_DeleteObject [simp]: "stages_entered (map DeleteObject ks) = []"
  by (induction ks) simp_all

lemma stages_cleanupOldBackups:
  "stages_entered (trace (snd (cleanupOldBackups e cfg w))) = stages_entered (trace w) @ [Prune]"
  by (simp add: cleanupOldBackups_def Let_def time_Now_def s3_ListObjectsV2_def trace_prune_loop
      split: prod.splits option.splits)

text \<open>
  Claim C3. Within a run the stage functions are entered in the order snapshot,
  compress, upload, prune. A stage is entered only after every stage before it has
  returned without an error: when the snapshot fails nothing else is entered, when the
  compression fails the upload and the pruning are not entered, and when the upload
  fails the pruning is not entered.
\<close>

theorem runBackup_stage_sequence:
  "stages_entered (trace (runBackup e cfg w)) =
     stages_entered (trace w) @
     (let (now, w0) = time_Now e w;
          backupFile = backupFile_of cfg (Format_stamp (zone_offset e) now);
          compressedFile = backupFile @ ''.gz''
      in case createBackup e (DBPath cfg) backupFile w0 of
           (Some err, w1) \<Rightarrow> [Snapshot]
         | (None, w1) \<Rightarrow>
        (case compressFile e backupFile compressedFile w1 of
           (Some err, w2) \<Rightarrow> [Snapshot, Compress]
         | (None, w2) \<Rightarrow>
        (case uploadToR2 e cfg compressedFile w2 of
           (Some err, w3) \<Rightarrow> [Snapshot, Compress, Upload]
         | (None, w3) \<Rightarrow> [Snapshot, Compress, Upload, Prune])))"
proof -
  obtain now w0 where n: "time_Now e w = (now, w0)" by (cases "time_Now e w")
  define bf where "bf = backupFile_of cfg (Format_stamp (zone_offset e) now)"
  have t0: "trace w0 = trace w" using trace_time_Now [of e w] n by simp
  obtain r1 w1 where c1: "createBackup e (DBPath cfg) bf w0 = (r1, w1)"
    by (cases "createBackup e (DBPath cfg) bf w0")
  have t1: "trace w1 = trace w @ [Enter Snapshot]"
    using trace_createBackup [of e "DBPath cfg" bf w0] c1 t0 by simp
  obtain r2 w2 where c2: "compressFile e bf (bf @ ''.gz'') w1 = (r2, w2)"
    by (cases "compressFile e bf (bf @ ''.gz'') w1")
  have t2: "trace w2 = trace w1 @ [Enter Compress]"
    using trace_compressFile [of e bf "bf @ ''.gz''" w1] c2 by simp
  obtain r3 w3 where c3: "uploadToR2 e cfg (bf @ ''.gz'') w2 = (r3, w3)"
    by (cases "uploadToR2 e cfg (bf @ ''.gz'') w2")
  have t3: "stages_entered (trace w3) = stages_entered (trace w2) @ [Upload]"
    using stages_uploadToR2 [of e cfg "bf @ ''.gz''" w2] c3 by simp
  obtain r4 w4 where c4: "cleanupOldBackups e cfg w3 = (r4, w4)"
    by (cases "cleanupOldBackups e cfg w3")
  have t4: "stages_entered (trace w4) = stages_entered (trace w3) @ [Prune]"
    using stages_cleanupOldBackups [of e cfg w3] c4 by simp
  show ?thesis
    unfolding runBackup_def n Let_def prod.case bf_def [symmetric] c1 c2 c3 c4
    using t1 t2 t3 t4
    by (cases r1; cases r2; cases r3; cases r4) simp_all
qed

subsection \<open>Pruning\<close>

lemma bucket_log_line [simp]: "bucket (log_line l w) = bucket w"
  by (simp add: log_line_def)

lemma bucket_emit [simp]: "bucket (emit ev w) = bucket w"
  by (simp add: emit_def)

lemma bucket_write_file [simp]: "bucket (write_file p c w) = bucket w"
  by (simp add: write_file_def)

lemma bucket_os_Remove [simp]: "bucket (os_Remove e p w) = bucket w"
  by (simp add: os_Remove_def Let_def)

lemma bucket_createBackup [simp]: "bucket (snd (createBackup e a b w)) = bucket w"
  by (simp add: createBackup_def Let_def split: option.splits)

lemma bucket_compressFile [simp]: "bucket (snd (compressFile e a b w)) = bucket w"
  by (simp add: compressFile_def Let_def split: option.splits)

lemma bucket_s3_DeleteObject:
  "bucket (snd (s3_DeleteObject e k w)) =
     (if delete_fails e k then bucket w else filter (\<lambda>(k', ob). k' \<noteq> k) (bucket w))"
  by (simp add: s3_DeleteObject_def Let_def)

lemma fst_s3_DeleteObject:
  "fst (s3_DeleteObject e k w) = (if delete_fails e k then Some FailedToDeleteObject else None)"
  by (simp add: s3_DeleteObject_def Let_def)

lemma deleted_keys_Nil [simp]: "deleted_keys e c [] = []"
  by (simp add: deleted_keys_def stale_keys_def)

lemma deleted_keys_Cons [simp]:
  "deleted_keys e c ((k, ob) # xs) =
     (if Before (LastModified ob) c \<and> \<not> delete_fails e k then k # deleted_keys e c xs
      else deleted_keys e c xs)"
  by (simp add: deleted_keys_def stale_keys_def)

lemma filter_keys_twice:
  "filter (\<lambda>(k', ob). k' \<notin> set D) (filter (\<lambda>(k', ob). k' \<noteq> k) xs) =
   filter (\<lambda>(k', ob). k' \<notin> set (k # D)) (xs :: (string \<times> s3object) list)"
  by (induction xs) auto

lemma bucket_prune_loop:
  "bucket (prune_loop e cutoff contents w) =
     filter (\<lambda>(k, ob). k \<notin> set (deleted_keys e cutoff contents)) (bucket w)"
proof (induction contents arbitrary: w)
  case Nil
  then show ?case by simp
next
  case (Cons a contents)
  obtain k ob where a: "a = (k, ob)" by (cases a)
  show ?case
  proof (cases "Before (LastModified ob) cutoff")
    case stale: True
    obtain r w1 where d: "s3_DeleteObject e k w = (r, w1)" by (cases "s3_DeleteObject e k w")
    have b: "bucket w1 = (if delete_fails e k then bucket w else filter (\<lambda>(k', ob). k' \<noteq> k) (bucket w))"
      using bucket_s3_DeleteObject [of e k w] d by simp
    have r: "r = (if delete_fails e k then Some FailedToDeleteObject else None)"
      using fst_s3_DeleteObject [of e k w] d by simp
    show ?thesis
    proof (cases "delete_fails e k")
      case True
      have "prune_loop e cutoff (a # contents) w =
            prune_loop e cutoff contents (log_line (LogFailedToDeleteOldBackup k FailedToDeleteObject) w1)"
        using stale a d r True by simp
      then show ?thesis using Cons.IH b True stale a by simp
    next
      case False
      have "prune_loop e cutoff (a # contents) w =
            prune_loop e cutoff contents (log_line (LogDeletedOldBackup k) w1)"
        using stale a d r False by simp
      then have "bucket (prune_loop e cutoff (a # contents) w) =
            filter (\<lambda>(k', ob). k' \<notin> set (deleted_keys e cutoff contents))
              (filter (\<lambda>(k', ob). k' \<noteq> k) (bucket w))"
        using Cons.IH b False by (simp del: filter_filter)
      also have "\<dots> = filter (\<lambda>(k', ob). k' \<notin> set (k # deleted_keys e cutoff contents)) (bucket w)"
        by (rule filter_keys_twice)
      also have "k # deleted_keys e cutoff contents = deleted_keys e cutoff (a # contents)"
        using False stale a by simp
      finally show ?thesis .
    qed
  next
    case False
    then show ?thesis using a Cons.IH by simp
  qed
qed

lemma bucket_cleanupOldBackups:
  "bucket (snd (cleanupOldBackups e cfg w)) =
     (if list_fails e then bucket w
      else filter (\<lambda>(k, ob). k \<notin> set (deleted_keys e (cutoff_of e cfg w) (listing_of w))) (bucket w))"
  by (simp add: cleanupOldBackups_def Let_def time_Now_def s3_ListObjectsV2_def bucket_prune_loop
      cutoff_of_def listing_of_def emit_def)

lemma fst_cleanupOldBackups:
  "fst (cleanupOldBackups e cfg w) = (if list_fails e then Some FailedToListR2Objects else None)"
  by (simp add: cleanupOldBackups_def Let_def time_Now_def s3_ListObjectsV2_def)

lemma trace_cleanupOldBackups:
  "trace (snd (cleanupOldBackups e cfg w)) =
     trace w @ [Enter Prune, ListObjectsV2 ''backups/''] @
     (if list_fails e then []
      else map DeleteObject (stale_keys (cutoff_of e cfg w) (listing_of w)))"
  by (simp add: cleanupOldBackups_def Let_def time_Now_def s3_ListObjectsV2_def trace_prune_loop
      cutoff_of_def listing_of_def emit_def)

lemma in_stale_keys_iff:
  "k \<in> set (stale_keys c xs) \<longleftrightarrow> (\<exists>ob. (k, ob) \<in> set xs \<and> Before (LastModified ob) c)"
  unfolding stale_keys_def by force





subsection \<open>The prefix\<close>

lemma HasPrefix_append: "HasPrefix (p @ s) p"
  by (simp add: HasPrefix_def)

lemma HasPrefix_backups [simp]:
  "HasPrefix (CHR ''b'' # CHR ''a'' # CHR ''c'' # CHR ''k'' # CHR ''u'' # CHR ''p'' # CHR ''s'' #
     CHR ''/'' # s) ''backups/''"
  using HasPrefix_append [of "''backups/''" s] by simp

lemma read_file_emit [simp]: "read_file (emit ev w) f = read_file w f"
  by (simp add: read_file_def emit_def)

lemma files_emit [simp]: "files (emit ev w) = files w"
  by (simp add: emit_def)

lemma ticks_emit [simp]: "ticks (emit ev w) = ticks w"
  by (simp add: emit_def)

lemma bucket_uploadToR2:
  "bucket (snd (uploadToR2 e cfg f w)) =
     (if can_open e w f \<and> \<not> put_fails e (''backups/'' @ Base f)
      then filter (\<lambda>(k, ob). k \<noteq> ''backups/'' @ Base f) (bucket w) @
           [(''backups/'' @ Base f,
             \<lparr>LastModified = put_stamp e (ticks w), Body = read_file w f\<rparr>)]
      else bucket w)"
  by (simp add: uploadToR2_def s3_PutObject_def Let_def can_open_def)

lemma trace_uploadToR2:
  "trace (snd (uploadToR2 e cfg f w)) =
     trace w @ Enter Upload # (if can_open e w f then [PutObject (''backups/'' @ Base f)] else [])"
  by (simp add: uploadToR2_def s3_PutObject_def Let_def can_open_def emit_def)

lemma outside_uploadToR2: "outside_prefix (snd (uploadToR2 e cfg f w)) = outside_prefix w"
proof -
  have "filter (\<lambda>(k, ob). \<not> HasPrefix k ''backups/'')
          (filter (\<lambda>(k, ob). k \<noteq> ''backups/'' @ Base f) (bucket w)) =
        filter (\<lambda>(k, ob). \<not> HasPrefix k ''backups/'') (bucket w)"
    unfolding filter_filter
    by (rule filter_cong [OF refl]) auto
  then show ?thesis
    by (simp add: outside_prefix_def bucket_uploadToR2 del: filter_filter)
qed

lemma stale_keys_under_prefix:
  "k \<in> set (stale_keys c (listing_of w)) \<Longrightarrow> HasPrefix k ''backups/''"
  unfolding in_stale_keys_iff by (auto simp: listing_of_def)

lemma deleted_keys_under_prefix:
  "k \<in> set (deleted_keys e c (listing_of w)) \<Longrightarrow> HasPrefix k ''backups/''"
  using stale_keys_under_prefix [of k c w] by (simp add: deleted_keys_def)

lemma outside_cleanupOldBackups:
  "outside_prefix (snd (cleanupOldBackups e cfg w)) = outside_prefix w"
proof -
  have "filter (\<lambda>(k, ob). \<not> HasPrefix k ''backups/'')
          (filter (\<lambda>(k, ob). k \<notin> set (deleted_keys e (cutoff_of e cfg w) (listing_of w))) (bucket w)) =
        filter (\<lambda>(k, ob). \<not> HasPrefix k ''backups/'') (bucket w)"
    unfolding filter_filter
    by (rule filter_cong [OF refl]) (use deleted_keys_under_prefix in auto)
  then show ?thesis
    by (simp add: outside_prefix_def bucket_cleanupOldBackups del: filter_filter)
qed

lemma requests_cleanupOldBackups:
  "list_all (under_prefix ''backups/'') (new_events w (snd (cleanupOldBackups e cfg w)))"
  by (auto simp: new_events_def trace_cleanupOldBackups list_all_iff dest: stale_keys_under_prefix)

lemma outside_simps [simp]:
  "outside_prefix (log_line l w) = outside_prefix w"
  "outside_prefix (os_Remove e p w) = outside_prefix w"
  "outside_prefix (snd (createBackup e a b w)) = outside_prefix w"
  "outside_prefix (snd (compressFile e a b w)) = outside_prefix w"
  "outside_prefix (snd (time_Now e w)) = outside_prefix w"
  by (simp_all add: outside_prefix_def time_Now_def)

text \<open>The events of a run, stage by stage.\<close>

lemma trace_runBackup_cases:
  obtains
    (snapshot_failed)
      "trace (runBackup e cfg w) = trace w @ [Enter Snapshot]"
      "outside_prefix (runBackup e cfg w) = outside_prefix w"
  | (compress_failed)
      "trace (runBackup e cfg w) = trace w @ [Enter Snapshot, Enter Compress]"
      "outside_prefix (runBackup e cfg w) = outside_prefix w"
  | (upload_failed) evs where
      "trace (runBackup e cfg w) = trace w @ [Enter Snapshot, Enter Compress] @ evs"
      "list_all (under_prefix ''backups/'') evs"
      "outside_prefix (runBackup e cfg w) = outside_prefix w"
  | (completed) evs where
      "trace (runBackup e cfg w) = trace w @ [Enter Snapshot, Enter Compress] @ evs"
      "list_all (under_prefix ''backups/'') evs"
      "outside_prefix (runBackup e cfg w) = outside_prefix w"
proof -
  obtain now w0 where n: "time_Now e w = (now, w0)" by (cases "time_Now e w")
  define bf where "bf = backupFile_of cfg (Format_stamp (zone_offset e) now)"
  have t0: "trace w0 = trace w" "outside_prefix w0 = outside_prefix w"
    using trace_time_Now [of e w] outside_simps(5) [of e w] n by simp_all
  obtain r1 w1 where c1: "createBackup e (DBPath cfg) bf w0 = (r1, w1)"
    by (cases "createBackup e (DBPath cfg) bf w0")
  have t1: "trace w1 = trace w @ [Enter Snapshot]" "outside_prefix w1 = outside_prefix w"
    using trace_createBackup [of e "DBPath cfg" bf w0] outside_simps(3) [of e "DBPath cfg" bf w0] c1 t0
    by simp_all
  obtain r2 w2 where c2: "compressFile e bf (bf @ ''.gz'') w1 = (r2, w2)"
    by (cases "compressFile e bf (bf @ ''.gz'') w1")
  have t2: "trace w2 = trace w @ [Enter Snapshot, Enter Compress]" "outside_prefix w2 = outside_prefix w"
    using trace_compressFile [of e bf "bf @ ''.gz''" w1] outside_simps(4) [of e bf "bf @ ''.gz''" w1] c2 t1
    by simp_all
  obtain r3 w3 where c3: "uploadToR2 e cfg (bf @ ''.gz'') w2 = (r3, w3)"
    by (cases "uploadToR2 e cfg (bf @ ''.gz'') w2")
  define ev3 where "ev3 = Enter Upload #
    (if can_open e w2 (bf @ ''.gz'') then [PutObject (''backups/'' @ Base (bf @ ''.gz''))] else [])"
  have t3: "trace w3 = trace w @ [Enter Snapshot, Enter Compress] @ ev3"
    "outside_prefix w3 = outside_prefix w"
    using trace_uploadToR2 [of e cfg "bf @ ''.gz''" w2] outside_uploadToR2 [of e cfg "bf @ ''.gz''" w2] c3 t2
    by (simp_all add: ev3_def)
  have u3: "list_all (under_prefix ''backups/'') ev3" by (simp add: ev3_def)
  obtain r4 w4 where c4: "cleanupOldBackups e cfg w3 = (r4, w4)"
    by (cases "cleanupOldBackups e cfg w3")
  define ev4 where "ev4 = new_events w3 w4"
  have t4: "trace w4 = trace w3 @ ev4" "outside_prefix w4 = outside_prefix w"
    using trace_cleanupOldBackups [of e cfg w3] outside_cleanupOldBackups [of e cfg w3] c4 t3
    by (simp_all add: ev4_def new_events_def)
  have u4: "list_all (under_prefix ''backups/'') ev4"
    using requests_cleanupOldBackups [of w3 e cfg] c4 by (simp add: ev4_def)
  have run: "runBackup e cfg w =
     (case r1 of Some err \<Rightarrow> log_line (LogBackupFailed err) w1
      | None \<Rightarrow> (case r2 of Some err \<Rightarrow> log_line (LogCompressionFailed err) w2
      | None \<Rightarrow> (case r3 of Some err \<Rightarrow> log_line (LogUploadFailed err) w3
      | None \<Rightarrow> log_line LogBackupCompleted (os_Remove e (bf @ ''.gz'') (os_Remove e bf
          (case r4 of Some err \<Rightarrow> log_line (LogCleanupWarning err) w4 | None \<Rightarrow> w4))))))"
    unfolding runBackup_def n Let_def prod.case bf_def [symmetric] c1 c2 c3 c4
    by (simp split: option.splits)
  show ?thesis
  proof (cases r1)
    case (Some err)
    then show ?thesis using run t1 snapshot_failed by simp
  next
    case n1: None
    show ?thesis
    proof (cases r2)
      case (Some err)
      then show ?thesis using run n1 t2 compress_failed by simp
    next
      case n2: None
      show ?thesis
      proof (cases r3)
        case (Some err)
        then show ?thesis using run n1 n2 t3 u3 upload_failed [of ev3] by simp
      next
        case n3: None
        have "trace (runBackup e cfg w) = trace w @ [Enter Snapshot, Enter Compress] @
                (ev3 @ ev4 @ [Remove bf, Remove (bf @ ''.gz'')])"
          using run n1 n2 n3 t3 t4 by (cases r4) simp_all
        moreover have "list_all (under_prefix ''backups/'') (ev3 @ ev4 @ [Remove bf, Remove (bf @ ''.gz'')])"
          using u3 u4 by simp
        moreover have "outside_prefix (runBackup e cfg w) = outside_prefix w"
          using run n1 n2 n3 t4 by (cases r4) simp_all
        ultimately show ?thesis using completed by blast
      qed
    qed
  qed
qed

text \<open>
  Claim C7. A pruning pass from any state of the store, and a whole run, list only the
  prefix \<^verbatim>\<open>backups/\<close>, put and delete only keys under that prefix, and leave every
  object outside the prefix as it was.
\<close>

theorem store_requests_confined_to_prefix:
  "outside_prefix (snd (cleanupOldBackups e cfg w)) = outside_prefix w \<and>
   list_all (under_prefix ''backups/'') (new_events w (snd (cleanupOldBackups e cfg w))) \<and>
   outside_prefix (runBackup e cfg w) = outside_prefix w \<and>
   list_all (under_prefix ''backups/'') (new_events w (runBackup e cfg w))"
proof -
  have "outside_prefix (runBackup e cfg w) = outside_prefix w \<and>
        list_all (under_prefix ''backups/'') (new_events w (runBackup e cfg w))"
    by (cases rule: trace_runBackup_cases [of e cfg w]) (simp_all add: new_events_def)
  then show ?thesis
    by (simp add: outside_cleanupOldBackups requests_cleanupOldBackups)
qed

subsection \<open>Failures that the program does not handle\<close>

text \<open>
  Claim C1 fails on the code. \<^verbatim>\<open>runBackup\<close> removes the two local files only at the
  end of a run in which snapshot, compression and upload succeeded; each failure
  returns before the removals. In the example run with a failing upload the log holds
  the upload failure, no removal was requested, and the staged file and the compressed
  file are both still on disk.
\<close>

theorem upload_failure_leaves_local_files:
  "let w = runBackup (example_env\<lparr>put_fails := (\<lambda>k. True)\<rparr>) example_cfg example_world
   in logs w = [LogUploadFailed FailedToUploadToR2] \<and>
      trace w = [Enter Snapshot, Enter Compress, Enter Upload,
                 PutObject ''backups/app_backup_20240301_020000.sql.gz''] \<and>
      files w ''/backups/app_backup_20240301_020000.sql'' = Some ''SQLite format 3'' \<and>
      files w ''/backups/app_backup_20240301_020000.sql.gz'' = Some ''<gz>SQLite format 3</gz>''"
  by code_simp

text \<open>
  Claim C6 fails on the code. The close of the gzip writer is deferred and its error is
  dropped. In the example run the close fails after four bytes of the stream: the
  compressed file holds those four bytes, not the stream of the staged file, yet
  \<^verbatim>\<open>compressFile\<close> returns no error, and the run uploads the truncated file and
  logs a completed backup.
\<close>

theorem close_failure_reported_as_success:
  "let e = example_env\<lparr>gzip_close_fails := (\<lambda>p. Some 4)\<rparr>;
       staged = ''/backups/app_backup_20240301_020000.sql'';
       w1 = snd (createBackup e ''/data/app.db'' staged example_world);
       r = compressFile e staged (staged @ ''.gz'') w1;
       w = runBackup e example_cfg example_world
   in fst r = None \<and>
      files (snd r) (staged @ ''.gz'') = Some ''<gz>'' \<and>
      gzip_stream e (read_file w1 staged) = ''<gz>SQLite format 3</gz>'' \<and>
      map_of (bucket w) ''backups/app_backup_20240301_020000.sql.gz'' =
        Some \<lparr>LastModified = example_time 1, Body = ''<gz>''\<rparr> \<and>
      logs w = [LogDeletedOldBackup ''backups/app_backup_20240115_020000.sql.gz'',
                LogBackupCompleted]"
  by code_simp

end
